theory Spec2Isabelle
  imports Complex_Main "HOL-Library.Sublist"
begin

section \<open>Data model of the finance tracker\<close>

text \<open>
  The program is the React component \<^verbatim>\<open>FinanceTracker\<close> of
  \<^verbatim>\<open>src/components/FinanceTracker.tsx\<close>. Its state is the four \<^verbatim>\<open>useState\<close>
  cells of lines 30-38, its operations are the handlers and derivations of lines 59-108
  and the three effects of lines 41-57.

  Strings are lists of 8-bit characters: a character stands for the UTF-16 code unit of
  the same number, so the strings of the model are the JavaScript strings whose code
  units are all below 256.
\<close>

subsection \<open>Numbers\<close>

text \<open>
  A JavaScript number is \<^verbatim>\<open>NaN\<close>, one of the two infinities, or a finite value. The model
  keeps the exact value of a finite number as a rational: the rounding of a literal or of
  a sum to the nearest double is not represented, and neither is the sign of zero. The
  statements below about \<^verbatim>\<open>parseFloat\<close> only use values that a double holds exactly, and
  the statements about sums are proved for every type that has \<open>0\<close>, \<open>+\<close> and \<open>-\<close>.
\<close>

datatype number = NaN | PosInfinity | NegInfinity | Finite rat

fun num_neg :: "number \<Rightarrow> number" where
  "num_neg NaN = NaN"
| "num_neg PosInfinity = NegInfinity"
| "num_neg NegInfinity = PosInfinity"
| "num_neg (Finite q) = Finite (- q)"

fun num_add :: "number \<Rightarrow> number \<Rightarrow> number" where
  "num_add NaN _ = NaN"
| "num_add _ NaN = NaN"
| "num_add PosInfinity NegInfinity = NaN"
| "num_add NegInfinity PosInfinity = NaN"
| "num_add PosInfinity _ = PosInfinity"
| "num_add _ PosInfinity = PosInfinity"
| "num_add NegInfinity _ = NegInfinity"
| "num_add _ NegInfinity = NegInfinity"
| "num_add (Finite a) (Finite b) = Finite (a + b)"

instantiation number :: "{zero, plus, minus}"
begin

definition zero_number :: number where
  "zero_number = Finite 0"

definition plus_number :: "number \<Rightarrow> number \<Rightarrow> number" where
  "plus_number a b = num_add a b"

definition minus_number :: "number \<Rightarrow> number \<Rightarrow> number" where
  "minus_number a b = num_add a (num_neg b)"

instance ..

end

text \<open>The precondition of the specification on an amount: a positive finite number.\<close>

fun positive_finite :: "number \<Rightarrow> bool" where
  "positive_finite (Finite q) = (0 < q)"
| "positive_finite _ = False"

subsection \<open>Strings: \<^verbatim>\<open>trim\<close>, \<^verbatim>\<open>parseFloat\<close>, \<^verbatim>\<open>toString\<close>\<close>

text \<open>
  White space and line terminators of ECMAScript among the code units below 256: TAB, LF,
  VT, FF, CR, SP and NBSP. \<^verbatim>\<open>String.prototype.trim\<close> removes them at both ends.
\<close>

definition is_space :: "char \<Rightarrow> bool" where
  "is_space c = (of_char c \<in> {9, 10, 11, 12, 13, 32, 160 :: nat})"

definition trim :: "string \<Rightarrow> string" where
  "trim s = rev (dropWhile is_space (rev (dropWhile is_space s)))"

definition is_digit :: "char \<Rightarrow> bool" where
  "is_digit c = (48 \<le> (of_char c :: nat) \<and> (of_char c :: nat) \<le> 57)"

definition digit_val :: "char \<Rightarrow> nat" where
  "digit_val c = of_char c - 48"

text \<open>The value of a string of decimal digits, read from the left.\<close>

definition digits_val :: "string \<Rightarrow> nat" where
  "digits_val ds = foldl (\<lambda>v c. 10 * v + digit_val c) 0 ds"

text \<open>\<open>m * 10 ^ e\<close> for an integer exponent.\<close>

definition scale10 :: "nat \<Rightarrow> int \<Rightarrow> rat" where
  "scale10 m e = (if 0 \<le> e then of_nat m * 10 ^ nat e else of_nat m / 10 ^ nat (- e))"

text \<open>
  An exponent part \<^verbatim>\<open>e\<close> or \<^verbatim>\<open>E\<close>, an optional sign and at least one digit; anything else
  is no exponent part, and the literal ends before it.
\<close>

definition exponent_part :: "string \<Rightarrow> (int \<times> string) option" where
  "exponent_part s =
     (case s of
        [] \<Rightarrow> None
      | c # r \<Rightarrow>
          if c = CHR ''e'' \<or> c = CHR ''E'' then
            (let (neg, r') =
                   (case r of
                      [] \<Rightarrow> (False, r)
                    | d # t \<Rightarrow>
                        if d = CHR ''-'' then (True, t)
                        else if d = CHR ''+'' then (False, t)
                        else (False, r));
                 ds = takeWhile is_digit r'
             in if ds = [] then None
                else Some ((if neg then - int (digits_val ds) else int (digits_val ds)),
                           dropWhile is_digit r'))
          else None)"

text \<open>
  \<^verbatim>\<open>parseFloat\<close> (ECMAScript 19.2.4): skip leading white space, take the longest prefix
  that is a \<^verbatim>\<open>StrDecimalLiteral\<close> (an optional sign, then \<^verbatim>\<open>Infinity\<close> or digits with an
  optional fraction and exponent; at least one digit before or after the point), and
  return its value; \<^verbatim>\<open>NaN\<close> when there is no such prefix.
\<close>

definition parseFloat :: "string \<Rightarrow> number" where
  "parseFloat s =
     (let t = dropWhile is_space s;
          (neg, u) =
            (case t of
               [] \<Rightarrow> (False, t)
             | c # r \<Rightarrow>
                 if c = CHR ''-'' then (True, r)
                 else if c = CHR ''+'' then (False, r)
                 else (False, t))
      in if take 8 u = ''Infinity'' then (if neg then NegInfinity else PosInfinity)
         else
           (let ip = takeWhile is_digit u;
                r1 = dropWhile is_digit u;
                (fp, r2) =
                  (case r1 of
                     [] \<Rightarrow> ([], r1)
                   | c # r \<Rightarrow>
                       if c = CHR ''.'' then (takeWhile is_digit r, dropWhile is_digit r)
                       else ([], r1))
            in if ip = [] \<and> fp = [] then NaN
               else
                 (let e = (case exponent_part r2 of None \<Rightarrow> 0 | Some (k, _) \<Rightarrow> k);
                      q = scale10 (digits_val (ip @ fp)) (e - int (length fp))
                  in Finite (if neg then - q else q))))"

text \<open>
  \<^verbatim>\<open>Number.prototype.toString\<close> on an integer: its decimal digits, with a minus sign when
  negative. (\<^verbatim>\<open>Date.now()\<close> is an integer number of milliseconds, far below \<open>10^21\<close>, where
  JavaScript would switch to the exponent notation.)
\<close>

definition digit_char :: "nat \<Rightarrow> char" where
  "digit_char d = ''0123456789'' ! d"

fun nat_digits :: "nat \<Rightarrow> string" where
  "nat_digits n =
     (if n < 10 then [digit_char n]
      else nat_digits (n div 10) @ [digit_char (n mod 10)])"

declare nat_digits.simps [simp del]

definition toString :: "int \<Rightarrow> string" where
  "toString n = (if n < 0 then CHR ''-'' # nat_digits (nat (- n)) else nat_digits (nat n))"

subsection \<open>Transactions and the component state\<close>

text \<open>The union type \<^verbatim>\<open>'income' | 'expense'\<close> (line 8), with the string each value is.\<close>

datatype txn_type = Income | Expense

fun type_name :: "txn_type \<Rightarrow> string" where
  "type_name Income = ''income''"
| "type_name Expense = ''expense''"

text \<open>The union type \<^verbatim>\<open>'all' | 'income' | 'expense'\<close> of the filter cell (line 32).\<close>

datatype filter_sel = FilterAll | FilterIncome | FilterExpense

fun filter_name :: "filter_sel \<Rightarrow> string" where
  "filter_name FilterAll = ''all''"
| "filter_name FilterIncome = ''income''"
| "filter_name FilterExpense = ''expense''"

text \<open>
  \<^verbatim>\<open>interface Transaction\<close> (lines 4-11). The field names carry a prefix because the form
  has fields of the same names. The type of the amount is a parameter: the handlers below
  work on \<^typ>\<open>number\<close>, the derivations on any type with the arithmetic they use.
\<close>

record 'n transaction =
  tx_id :: string
  tx_description :: string
  tx_amount :: 'n
  tx_type :: txn_type
  tx_category :: string
  tx_date :: string

text \<open>The \<^verbatim>\<open>formData\<close> cell (lines 33-38): the amount is still the text of the input.\<close>

record form_data =
  f_description :: string
  f_amount :: string
  f_type :: txn_type
  f_category :: string

text \<open>
  The component state. \<open>stored\<close> is the history of the storage slot
  \<^verbatim>\<open>localStorage['financeTracker']\<close>: the lists passed to
  \<^verbatim>\<open>localStorage.setItem('financeTracker', JSON.stringify(_))\<close> by the effect of lines
  49-51, newest first.
\<close>

record 'n app_state =
  transactions :: "'n transaction list"
  showModal :: bool
  filter_cell :: filter_sel
  formData :: form_data
  stored :: "'n transaction list list"

text \<open>The constant \<^verbatim>\<open>categories\<close> (lines 13-16).\<close>

fun categories :: "txn_type \<Rightarrow> string list" where
  "categories Income = [''Salary'', ''Freelance'', ''Investment'']"
| "categories Expense = [''Food'', ''Transport'', ''Shopping'', ''Entertainment'', ''Bills'']"

text \<open>The initial values of the \<^verbatim>\<open>useState\<close> cells (lines 30-38); nothing is written yet.\<close>

definition initial_form :: form_data where
  "initial_form =
     \<lparr>f_description = '''', f_amount = '''', f_type = Expense, f_category = ''Food''\<rparr>"

definition initial_state :: "'n app_state" where
  "initial_state =
     \<lparr>transactions = [], showModal = False, filter_cell = FilterAll,
      formData = initial_form, stored = []\<rparr>"

section \<open>Operations\<close>

text \<open>
  \<^verbatim>\<open>setTransactions(prev => f(prev))\<close>. Every call site (lines 44, 91 and 102) passes a
  new array, so the component renders again with a new \<^verbatim>\<open>transactions\<close> object and React
  runs the effect of lines 49-51, which writes the new list to the storage slot.
\<close>

definition setTransactions ::
    "('n transaction list \<Rightarrow> 'n transaction list) \<Rightarrow> 'n app_state \<Rightarrow> 'n app_state" where
  "setTransactions f s =
     (let ts = f (transactions s) in s\<lparr>transactions := ts, stored := ts # stored s\<rparr>)"

text \<open>
  What a handler call evaluates to. Neither handler has a \<^verbatim>\<open>return\<close> with a value, so
  both evaluate to \<^verbatim>\<open>undefined\<close>; the booleans are the values that the specification
  expects of \<^verbatim>\<open>delete\<close>.
\<close>

datatype retval = Undefined | Boolean bool

text \<open>
  \<^verbatim>\<open>calculateStats\<close> (lines 59-73). \<^verbatim>\<open>reduce((sum, t) => sum + t.amount, 0)\<close> is a fold
  from the left that starts at \<open>0\<close>.
\<close>

record 'n stats =
  income :: 'n
  expenses :: 'n
  balance :: 'n

definition calculateStats :: "('n::{zero,plus,minus}) app_state \<Rightarrow> 'n stats" where
  "calculateStats s =
     (let income = foldl (\<lambda>sum t. sum + tx_amount t) 0
                     (filter (\<lambda>t. type_name (tx_type t) = ''income'') (transactions s));
          expenses = foldl (\<lambda>sum t. sum + tx_amount t) 0
                     (filter (\<lambda>t. type_name (tx_type t) = ''expense'') (transactions s))
      in \<lparr>income = income, expenses = expenses, balance = income - expenses\<rparr>)"

text \<open>
  \<^verbatim>\<open>handleSubmit\<close> (lines 75-99). \<open>now\<close> is what \<^verbatim>\<open>Date.now()\<close> returns at line 83 and
  \<open>stamp\<close> is what \<^verbatim>\<open>new Date().toISOString()\<close> returns at line 88. The empty string is the
  only string that \<^verbatim>\<open>!\<close> maps to true.
\<close>

definition handleSubmit ::
    "int \<Rightarrow> string \<Rightarrow> number app_state \<Rightarrow> retval \<times> number app_state" where
  "handleSubmit now stamp s =
     (if trim (f_description (formData s)) = [] \<or> f_amount (formData s) = [] then
        (Undefined, s)
      else
        (let newTransaction =
               \<lparr>tx_id = toString now,
                tx_description = trim (f_description (formData s)),
                tx_amount = parseFloat (f_amount (formData s)),
                tx_type = f_type (formData s),
                tx_category = f_category (formData s),
                tx_date = stamp\<rparr>;
             s1 = setTransactions (\<lambda>prev. newTransaction # prev) s;
             s2 = s1\<lparr>formData :=
                      \<lparr>f_description = '''', f_amount = '''', f_type = Expense,
                       f_category = ''Food''\<rparr>\<rparr>;
             s3 = s2\<lparr>showModal := False\<rparr>
         in (Undefined, s3)))"

text \<open>\<^verbatim>\<open>deleteTransaction\<close> (lines 101-103).\<close>

definition deleteTransaction :: "string \<Rightarrow> 'n app_state \<Rightarrow> retval \<times> 'n app_state" where
  "deleteTransaction i s = (Undefined, setTransactions (filter (\<lambda>t. tx_id t \<noteq> i)) s)"

text \<open>\<^verbatim>\<open>filteredTransactions\<close> (lines 105-108).\<close>

definition filteredTransactions :: "'n app_state \<Rightarrow> 'n transaction list" where
  "filteredTransactions s =
     filter (\<lambda>transaction.
               if filter_name (filter_cell s) = ''all'' then True
               else type_name (tx_type transaction) = filter_name (filter_cell s))
            (transactions s)"

section \<open>The user interface as a transition system\<close>

text \<open>
  The events the rendered component offers, each with the line of its handler:
  the button of line 137, the two closing buttons of lines 354 and 438, the filter buttons
  of lines 196-212, the inputs of lines 369 and 385, the type buttons of lines 399 and 408,
  the select of line 424, the form's \<^verbatim>\<open>onSubmit\<close> of line 361 (with the two clock readings
  of \<^verbatim>\<open>handleSubmit\<close>) and the delete button of line 268.
\<close>

datatype ui_event =
    ClickAdd
  | ClickClose
  | ClickFilter filter_sel
  | ChangeDescription string
  | ChangeAmount string
  | ClickType txn_type
  | SelectCategory string
  | Submit int string
  | ClickDelete string

text \<open>
  What the render offers in a state: the form exists only while the modal is shown (line
  348), the select lists exactly \<^verbatim>\<open>categories[formData.type]\<close> (line 427), and there is
  one delete button per displayed transaction (lines 234 and 268). The browser's own
  validation of the inputs (\<^verbatim>\<open>required\<close>, \<^verbatim>\<open>min\<close>) is not part of the component and is
  not modelled: a submit event is possible whenever the form is shown.
\<close>

fun offered :: "ui_event \<Rightarrow> 'n app_state \<Rightarrow> bool" where
  "offered ClickAdd s = True"
| "offered (ClickFilter f) s = True"
| "offered (SelectCategory c) s =
     (showModal s \<and> c \<in> set (categories (f_type (formData s))))"
| "offered (ClickDelete i) s = (i \<in> set (map tx_id (filteredTransactions s)))"
| "offered _ s = showModal s"

fun handler :: "ui_event \<Rightarrow> number app_state \<Rightarrow> number app_state" where
  "handler ClickAdd s = s\<lparr>showModal := True\<rparr>"
| "handler ClickClose s = s\<lparr>showModal := False\<rparr>"
| "handler (ClickFilter f) s = s\<lparr>filter_cell := f\<rparr>"
| "handler (ChangeDescription d) s = s\<lparr>formData := (formData s)\<lparr>f_description := d\<rparr>\<rparr>"
| "handler (ChangeAmount a) s = s\<lparr>formData := (formData s)\<lparr>f_amount := a\<rparr>\<rparr>"
| "handler (ClickType ty) s = s\<lparr>formData := (formData s)\<lparr>f_type := ty\<rparr>\<rparr>"
| "handler (SelectCategory c) s = s\<lparr>formData := (formData s)\<lparr>f_category := c\<rparr>\<rparr>"
| "handler (Submit now stamp) s = snd (handleSubmit now stamp s)"
| "handler (ClickDelete i) s = snd (deleteTransaction i s)"

text \<open>
  The effect of lines 54-57, with the dependency \<^verbatim>\<open>[formData.type]\<close>: after a render in
  which the type differs from the type of the render before, the category becomes the first
  category of the new type. React runs it before it handles the next event.
\<close>

definition category_effect :: "txn_type \<Rightarrow> 'n app_state \<Rightarrow> 'n app_state" where
  "category_effect previous s =
     (if f_type (formData s) \<noteq> previous then
        (let newCategory = categories (f_type (formData s)) ! 0
         in s\<lparr>formData := (formData s)\<lparr>f_category := newCategory\<rparr>\<rparr>)
      else s)"

definition step :: "ui_event \<Rightarrow> number app_state \<Rightarrow> number app_state" where
  "step ev s =
     (if offered ev s then category_effect (f_type (formData s)) (handler ev s) else s)"

fun run :: "ui_event list \<Rightarrow> number app_state \<Rightarrow> number app_state" where
  "run [] s = s"
| "run (ev # evs) s = run evs (step ev s)"

text \<open>
  The state after mounting, given the list the storage slot decodes to (\<open>None\<close> when the slot
  is absent or empty). In the first commit the effect of lines 49-51 writes the initial
  empty list; the \<^verbatim>\<open>setTransactions\<close> of line 44 then renders again and the same effect
  writes the loaded list.
\<close>

definition mount :: "'n transaction list option \<Rightarrow> 'n app_state" where
  "mount slot =
     (let s1 = initial_state\<lparr>stored := [[]]\<rparr>
      in case slot of None \<Rightarrow> s1 | Some ts \<Rightarrow> setTransactions (\<lambda>_. ts) s1)"

section \<open>Loading from the storage slot\<close>

text \<open>
  The effect of lines 41-46 passes the text of the storage slot to \<^verbatim>\<open>JSON.parse\<close>. What
  follows is the grammar of JSON texts (ECMA-404), which \<^verbatim>\<open>JSON.parse\<close> accepts exactly:
  a lexer from characters to tokens and a parser from tokens to a value. A string value is
  a list of UTF-16 code units; an object is the list of its members in the order of the
  text (of two members with one name JavaScript keeps the later one; no statement below
  depends on it).
\<close>

datatype json =
    JNull
  | JBool bool
  | JNumber number
  | JString "nat list"
  | JArray "json list"
  | JObject "(nat list \<times> json) list"

datatype token =
    LBrace | RBrace | LBracket | RBracket | Colon | Comma
  | TString "nat list" | TNumber number | TTrue | TFalse | TNull

text \<open>The exception that \<^verbatim>\<open>JSON.parse\<close> throws on a text that is not JSON.\<close>

datatype js_error = SyntaxError

text \<open>The white space of JSON: space, TAB, LF and CR.\<close>

definition json_space :: "char \<Rightarrow> bool" where
  "json_space c = (of_char c \<in> {32, 9, 10, 13 :: nat})"

definition hex_val :: "char \<Rightarrow> nat option" where
  "hex_val c =
     (let n = (of_char c :: nat)
      in if 48 \<le> n \<and> n \<le> 57 then Some (n - 48)
         else if 65 \<le> n \<and> n \<le> 70 then Some (n - 55)
         else if 97 \<le> n \<and> n \<le> 102 then Some (n - 87)
         else None)"

text \<open>
  What follows a reverse solidus inside a string: one of the eight one-letter escapes
  (quotation mark, reverse solidus, solidus, b, f, n, r, t), or \<^verbatim>\<open>u\<close> and four hexadecimal
  digits. The result is the code unit and the text after the escape.
\<close>

definition unescape :: "string \<Rightarrow> (nat \<times> string) option" where
  "unescape s =
     (case s of
        [] \<Rightarrow> None
      | e # r \<Rightarrow>
          if e = CHR 0x22 then Some (34, r)
          else if e = CHR 0x5C then Some (92, r)
          else if e = CHR ''/'' then Some (47, r)
          else if e = CHR ''b'' then Some (8, r)
          else if e = CHR ''f'' then Some (12, r)
          else if e = CHR ''n'' then Some (10, r)
          else if e = CHR ''r'' then Some (13, r)
          else if e = CHR ''t'' then Some (9, r)
          else if e = CHR ''u'' then
            (case map hex_val (take 4 r) of
               [Some a, Some b, Some c, Some d] \<Rightarrow>
                 Some (((a * 16 + b) * 16 + c) * 16 + d, drop 4 r)
             | _ \<Rightarrow> None)
          else None)"

lemma unescape_shorter: "unescape s = Some (u, r) \<Longrightarrow> length r < length s"
proof (cases s)
  case Nil
  assume "unescape s = Some (u, r)"
  with Nil show ?thesis by (simp add: unescape_def)
next
  case (Cons e r0)
  assume "unescape s = Some (u, r)"
  with Cons have "r = r0 \<or> r = drop 4 r0"
    by (simp add: unescape_def split: if_splits list.splits option.splits)
  with Cons show ?thesis by auto
qed

text \<open>
  The rest of a string after its opening quotation mark: the code units up to the closing
  quotation mark (collected in \<open>acc\<close>, newest first) and the text after it. A control
  character must be escaped, and the text must not end inside the string.
\<close>

function lex_string :: "string \<Rightarrow> nat list \<Rightarrow> (nat list \<times> string) option" where
  "lex_string [] acc = None"
| "lex_string (c # cs) acc =
     (if c = CHR 0x22 then Some (rev acc, cs)
      else if c = CHR 0x5C then
        (case unescape cs of
           None \<Rightarrow> None
         | Some (u, r) \<Rightarrow> lex_string r (u # acc))
      else if (of_char c :: nat) < 32 then None
      else lex_string cs (of_char c # acc))"
  by pat_completeness auto
termination
  by (relation "measure (\<lambda>(s, acc). length s)") (auto dest: unescape_shorter)

declare lex_string.simps [simp del]

lemma lex_string_shorter: "lex_string s acc = Some (v, r) \<Longrightarrow> length r < length s"
proof (induction s acc rule: lex_string.induct)
  case (1 acc)
  then show ?case by (simp add: lex_string.simps)
next
  case (2 c cs acc)
  show ?case
  proof (cases "c = CHR 0x22")
    case True
    with "2.prems" show ?thesis by (simp add: lex_string.simps)
  next
    case quote: False
    show ?thesis
    proof (cases "c = CHR 0x5C")
      case True
      with quote "2.prems" obtain u r0 where u: "unescape cs = Some (u, r0)"
        and rest: "lex_string r0 (u # acc) = Some (v, r)"
        by (auto simp: lex_string.simps split: option.splits)
      from "2.IH"(1) [OF quote True u refl rest] have "length r < length r0" .
      with unescape_shorter [OF u] show ?thesis by simp
    next
      case False
      with quote "2.prems" have ctl: "\<not> (of_char c :: nat) < 32"
        and rest: "lex_string cs (of_char c # acc) = Some (v, r)"
        by (auto simp: lex_string.simps split: if_splits)
      from "2.IH"(2) [OF quote False ctl rest] show ?thesis by simp
    qed
  qed
qed

text \<open>
  A number: an optional minus sign, an integer part (\<^verbatim>\<open>0\<close>, or digits that do not start
  with \<^verbatim>\<open>0\<close>), an optional fraction (a point and at least one digit) and an optional
  exponent. Each part returns what it read and the text after it.
\<close>

definition minus_part :: "string \<Rightarrow> bool \<times> string" where
  "minus_part s =
     (case s of [] \<Rightarrow> (False, s) | c # r \<Rightarrow> if c = CHR ''-'' then (True, r) else (False, s))"

definition int_part :: "string \<Rightarrow> string \<times> string" where
  "int_part s =
     (case s of
        [] \<Rightarrow> ([], s)
      | c # r \<Rightarrow>
          if c = CHR ''0'' then ([c], r) else (takeWhile is_digit s, dropWhile is_digit s))"

definition frac_part :: "string \<Rightarrow> string \<times> string" where
  "frac_part s =
     (case s of
        [] \<Rightarrow> ([], s)
      | c # r \<Rightarrow>
          if c = CHR ''.'' \<and> takeWhile is_digit r \<noteq> []
          then (takeWhile is_digit r, dropWhile is_digit r)
          else ([], s))"

definition lex_number :: "string \<Rightarrow> (number \<times> string) option" where
  "lex_number s =
     (let (neg, u) = minus_part s;
          (ip, r1) = int_part u;
          (fp, r2) = frac_part r1;
          (e, r3) = (case exponent_part r2 of None \<Rightarrow> (0, r2) | Some (k, r) \<Rightarrow> (k, r));
          q = scale10 (digits_val (ip @ fp)) (e - int (length fp))
      in if ip = [] then None else Some (Finite (if neg then - q else q), r3))"

lemma minus_part_shorter: "minus_part s = (neg, u) \<Longrightarrow> length u \<le> length s"
  by (auto simp: minus_part_def split: list.splits if_splits)

lemma int_part_shorter: "int_part s = (ip, r) \<Longrightarrow> length ip + length r = length s"
proof -
  assume a: "int_part s = (ip, r)"
  have "length (takeWhile is_digit s) + length (dropWhile is_digit s) = length s"
    by (metis length_append takeWhile_dropWhile_id)
  with a show ?thesis
    by (auto simp: int_part_def split: list.splits if_splits)
qed

lemma frac_part_shorter: "frac_part s = (fp, r) \<Longrightarrow> length r \<le> length s"
proof -
  assume a: "frac_part s = (fp, r)"
  have "\<And>t. length (dropWhile is_digit t) \<le> length t"
    by (rule length_dropWhile_le)
  with a show ?thesis
    by (auto simp: frac_part_def le_SucI split: list.splits if_splits)
qed

lemma exponent_part_shorter:
  assumes "exponent_part s = Some (k, r)"
  shows "length r < length s"
proof (cases s)
  case Nil
  with assms show ?thesis by (simp add: exponent_part_def)
next
  case (Cons c r0)
  define r' where
    "r' = (case r0 of [] \<Rightarrow> r0
           | d # t \<Rightarrow> if d = CHR ''-'' then t else if d = CHR ''+'' then t else r0)"
  have "length r' \<le> length r0"
    by (simp add: r'_def split: list.splits)
  moreover from assms Cons have "r = dropWhile is_digit r'"
    by (auto simp: exponent_part_def r'_def Let_def split: if_splits list.splits)
  moreover have "length (dropWhile is_digit r') \<le> length r'"
    by (rule length_dropWhile_le)
  ultimately show ?thesis using Cons by simp
qed

lemma lex_number_shorter:
  assumes "lex_number s = Some (n, r)"
  shows "length r < length s"
proof -
  obtain neg u where m: "minus_part s = (neg, u)" by (cases "minus_part s")
  obtain ip r1 where i: "int_part u = (ip, r1)" by (cases "int_part u")
  obtain fp r2 where f: "frac_part r1 = (fp, r2)" by (cases "frac_part r1")
  from assms m i f have ip: "ip \<noteq> []"
    and r: "r = (case exponent_part r2 of None \<Rightarrow> r2 | Some (k, r3) \<Rightarrow> r3)"
    by (auto simp: lex_number_def Let_def split: if_splits option.splits)
  from r have "length r \<le> length r2"
    by (auto split: option.splits dest: exponent_part_shorter)
  also from f have "\<dots> \<le> length r1" by (rule frac_part_shorter)
  also from i ip have "\<dots> < length u" using int_part_shorter [of u ip r1] by (cases ip) auto
  also from m have "\<dots> \<le> length s" by (rule minus_part_shorter)
  finally show ?thesis .
qed

text \<open>The first token of a text that does not start with white space, and the rest.\<close>

definition next_token :: "string \<Rightarrow> (token \<times> string) option" where
  "next_token s =
     (case s of
        [] \<Rightarrow> None
      | c # cs \<Rightarrow>
          if c = CHR ''{'' then Some (LBrace, cs)
          else if c = CHR ''}'' then Some (RBrace, cs)
          else if c = CHR ''['' then Some (LBracket, cs)
          else if c = CHR '']'' then Some (RBracket, cs)
          else if c = CHR '':'' then Some (Colon, cs)
          else if c = CHR '','' then Some (Comma, cs)
          else if c = CHR 0x22 then
            (case lex_string cs [] of
               None \<Rightarrow> None
             | Some (u, r) \<Rightarrow> Some (TString u, r))
          else if c = CHR ''-'' \<or> is_digit c then
            (case lex_number s of
               None \<Rightarrow> None
             | Some (n, r) \<Rightarrow> Some (TNumber n, r))
          else if take 4 s = ''true'' then Some (TTrue, drop 4 s)
          else if take 5 s = ''false'' then Some (TFalse, drop 5 s)
          else if take 4 s = ''null'' then Some (TNull, drop 4 s)
          else None)"

lemma next_token_shorter:
  assumes "next_token s = Some (t, r)"
  shows "length r < length s"
proof (cases s)
  case Nil
  with assms show ?thesis by (simp add: next_token_def)
next
  case (Cons c cs)
  from assms Cons consider
      (one) "r = cs"
    | (str) u where "lex_string cs [] = Some (u, r)"
    | (num) n where "lex_number s = Some (n, r)"
    | (word) "r = drop 4 s \<or> r = drop 5 s"
    by (auto simp: next_token_def split: if_splits option.splits prod.splits)
  then show ?thesis
  proof cases
    case one
    with Cons show ?thesis by simp
  next
    case str
    with Cons show ?thesis using lex_string_shorter [of cs "[]" u r] by simp
  next
    case num
    then show ?thesis by (rule lex_number_shorter)
  next
    case word
    with Cons show ?thesis by auto
  qed
qed

function lex :: "string \<Rightarrow> token list option" where
  "lex [] = Some []"
| "lex (c # cs) =
     (if json_space c then lex cs
      else
        (case next_token (c # cs) of
           None \<Rightarrow> None
         | Some (t, r) \<Rightarrow> (case lex r of None \<Rightarrow> None | Some ts \<Rightarrow> Some (t # ts))))"
  by pat_completeness auto
termination
  by (relation "measure length") (auto dest: next_token_shorter)

declare lex.simps [simp del]

text \<open>
  The parser reads the tokens from the left with a stack of the arrays and objects that
  are still open. A frame holds what its container has collected so far, newest first;
  \<open>InField\<close> is an object whose current member has its name and its colon and waits for
  the value. The mode says what may come next.
\<close>

datatype frame =
    InArray "json list"
  | InObject "(nat list \<times> json) list"
  | InField "(nat list \<times> json) list" "nat list"

datatype mode =
    WantValue
  | WantValueOrEnd
  | WantKey
  | WantKeyOrEnd
  | WantColon "nat list"
  | WantCommaOrEnd
  | Finished json

text \<open>A value is complete: it is the whole text, or it goes into the innermost container.\<close>

fun complete :: "json \<Rightarrow> frame list \<Rightarrow> (mode \<times> frame list) option" where
  "complete v [] = Some (Finished v, [])"
| "complete v (InArray es # st) = Some (WantCommaOrEnd, InArray (v # es) # st)"
| "complete v (InField ms k # st) = Some (WantCommaOrEnd, InObject ((k, v) # ms) # st)"
| "complete v (InObject ms # st) = None"

fun value_start :: "token \<Rightarrow> frame list \<Rightarrow> (mode \<times> frame list) option" where
  "value_start (TString u) st = complete (JString u) st"
| "value_start (TNumber n) st = complete (JNumber n) st"
| "value_start TTrue st = complete (JBool True) st"
| "value_start TFalse st = complete (JBool False) st"
| "value_start TNull st = complete JNull st"
| "value_start LBracket st = Some (WantValueOrEnd, InArray [] # st)"
| "value_start LBrace st = Some (WantKeyOrEnd, InObject [] # st)"
| "value_start _ st = None"

fun close_array :: "frame list \<Rightarrow> (mode \<times> frame list) option" where
  "close_array (InArray es # st) = complete (JArray (rev es)) st"
| "close_array _ = None"

fun close_object :: "frame list \<Rightarrow> (mode \<times> frame list) option" where
  "close_object (InObject ms # st) = complete (JObject (rev ms)) st"
| "close_object _ = None"

fun pstep :: "mode \<Rightarrow> frame list \<Rightarrow> token \<Rightarrow> (mode \<times> frame list) option" where
  "pstep WantValue st t = value_start t st"
| "pstep WantValueOrEnd st t = (if t = RBracket then close_array st else value_start t st)"
| "pstep WantKey st t = (case t of TString k \<Rightarrow> Some (WantColon k, st) | _ \<Rightarrow> None)"
| "pstep WantKeyOrEnd st t =
     (case t of
        TString k \<Rightarrow> Some (WantColon k, st)
      | RBrace \<Rightarrow> close_object st
      | _ \<Rightarrow> None)"
| "pstep (WantColon k) st t =
     (case (t, st) of
        (Colon, InObject ms # r) \<Rightarrow> Some (WantValue, InField ms k # r)
      | _ \<Rightarrow> None)"
| "pstep WantCommaOrEnd st t =
     (case t of
        Comma \<Rightarrow>
          (case st of
             InArray es # r \<Rightarrow> Some (WantValue, st)
           | InObject ms # r \<Rightarrow> Some (WantKey, st)
           | _ \<Rightarrow> None)
      | RBracket \<Rightarrow> close_array st
      | RBrace \<Rightarrow> close_object st
      | _ \<Rightarrow> None)"
| "pstep (Finished v) st t = None"

fun parse_from :: "mode \<Rightarrow> frame list \<Rightarrow> token list \<Rightarrow> json option" where
  "parse_from m st [] = (case m of Finished v \<Rightarrow> Some v | _ \<Rightarrow> None)"
| "parse_from m st (t # ts) =
     (case pstep m st t of None \<Rightarrow> None | Some (m', st') \<Rightarrow> parse_from m' st' ts)"

text \<open>\<^verbatim>\<open>JSON.parse\<close>: the value of a JSON text, a \<^verbatim>\<open>SyntaxError\<close> for every other text.\<close>

definition JSON_parse :: "string \<Rightarrow> js_error + json" where
  "JSON_parse text =
     (case lex text of
        None \<Rightarrow> Inl SyntaxError
      | Some ts \<Rightarrow>
          (case parse_from WantValue [] ts of
             None \<Rightarrow> Inl SyntaxError
           | Some v \<Rightarrow> Inr v))"

text \<open>
  The effect of lines 41-46. \<open>saved\<close> is what \<^verbatim>\<open>localStorage.getItem('financeTracker')\<close>
  returns, \<^verbatim>\<open>null\<close> being \<open>None\<close>; \<open>transactions0\<close> is the value of the \<^verbatim>\<open>transactions\<close> cell
  before the effect. \<^verbatim>\<open>null\<close> and the empty string are the values that \<^verbatim>\<open>if (saved)\<close>
  takes for false. The result is the value of the cell after the effect, or the exception
  that leaves the effect: nothing in the component catches it. The cell holds whatever
  value the text denotes; the type annotation of line 30 is not checked when the program
  runs.
\<close>

definition load :: "string option \<Rightarrow> json \<Rightarrow> js_error + json" where
  "load saved transactions0 =
     (case saved of
        None \<Rightarrow> Inr transactions0
      | Some text \<Rightarrow> if text = [] then Inr transactions0 else JSON_parse text)"

text \<open>The code units of a string of the model.\<close>

definition units :: "string \<Rightarrow> nat list" where
  "units s = map of_char s"

text \<open>
  The object that a transaction is when the program runs, its properties in the order of
  the object literal of lines 82-89.
\<close>

definition transaction_json :: "number transaction \<Rightarrow> json" where
  "transaction_json t =
     JObject
       [(units ''id'', JString (units (tx_id t))),
        (units ''description'', JString (units (tx_description t))),
        (units ''amount'', JNumber (tx_amount t)),
        (units ''type'', JString (units (type_name (tx_type t)))),
        (units ''category'', JString (units (tx_category t))),
        (units ''date'', JString (units (tx_date t)))]"

section \<open>Notions of the specification\<close>

text \<open>An entry matches a filter criterion: every entry matches \<^verbatim>\<open>all\<close>.\<close>

fun criterion_matches :: "filter_sel \<Rightarrow> txn_type \<Rightarrow> bool" where
  "criterion_matches FilterAll ty = True"
| "criterion_matches FilterIncome ty = (ty = Income)"
| "criterion_matches FilterExpense ty = (ty = Expense)"

text \<open>
  The sum of the amounts of the entries of one type, accumulated in list order from \<open>0\<close>.
\<close>

definition total_of :: "txn_type \<Rightarrow> ('n::{zero,plus}) transaction list \<Rightarrow> 'n" where
  "total_of ty ts = foldl (+) 0 (map tx_amount (filter (\<lambda>t. tx_type t = ty) ts))"



text \<open>The ids of the store, in store order.\<close>

definition ids :: "'n app_state \<Rightarrow> string list" where
  "ids s = map tx_id (transactions s)"



section \<open>Example inputs\<close>

definition form_coffee_zero :: form_data where
  "form_coffee_zero =
     \<lparr>f_description = ''Coffee'', f_amount = ''0'', f_type = Expense, f_category = ''Food''\<rparr>"

definition form_blank :: form_data where
  "form_blank =
     \<lparr>f_description = ''   '', f_amount = ''12'', f_type = Expense, f_category = ''Food''\<rparr>"

definition form_coffee :: form_data where
  "form_coffee =
     \<lparr>f_description = '' Coffee '', f_amount = ''4.50'', f_type = Expense,
      f_category = ''Food''\<rparr>"

definition with_form :: "form_data \<Rightarrow> number app_state" where
  "with_form f = (mount None)\<lparr>showModal := True, formData := f\<rparr>"

definition tea :: "number transaction" where
  "tea =
     \<lparr>tx_id = ''1762041600000'', tx_description = ''Tea'', tx_amount = Finite 2,
      tx_type = Expense, tx_category = ''Food'', tx_date = ''2026-11-02T00:00:00.000Z''\<rparr>"

definition bus :: "number transaction" where
  "bus =
     \<lparr>tx_id = ''1762041600000'', tx_description = ''Bus'', tx_amount = Finite 3,
      tx_type = Expense, tx_category = ''Transport'',
      tx_date = ''2026-11-02T00:00:00.000Z''\<rparr>"

definition pay :: "number transaction" where
  "pay =
     \<lparr>tx_id = ''1762041600007'', tx_description = ''Pay'', tx_amount = Finite 1000,
      tx_type = Income, tx_category = ''Salary'', tx_date = ''2026-11-02T00:00:00.007Z''\<rparr>"



text \<open>
  One entry is added and the form is filled in again; then the second entry is submitted
  while the clock reads the same millisecond as at the first submission.
\<close>

definition refilled_events :: "ui_event list" where
  "refilled_events =
     [ClickAdd, ChangeDescription ''Bus'', ChangeAmount ''3'', SelectCategory ''Transport'',
      Submit 1762041600000 ''2026-11-02T00:00:00.000Z'',
      ClickAdd, ChangeDescription ''Tea'', ChangeAmount ''2'']"

definition same_ms_events :: "ui_event list" where
  "same_ms_events = refilled_events @ [Submit 1762041600000 ''2026-11-02T00:00:00.000Z'']"

text \<open>One expense entry is added, then one income entry seven milliseconds later.\<close>

definition two_adds :: "ui_event list" where
  "two_adds =
     [ClickAdd, ChangeDescription ''Tea'', ChangeAmount ''2'',
      Submit 1762041600000 ''2026-11-02T00:00:00.000Z'',
      ClickAdd, ClickType Income, ChangeDescription ''Pay'', ChangeAmount ''1000'',
      Submit 1762041600007 ''2026-11-02T00:00:00.007Z'']"

text \<open>
  The text that the effect of lines 49-51 writes for the store that holds the entry
  \<open>tea\<close> alone, and a text cut off in the middle of it.
\<close>

definition tea_text :: string where
  \<open>tea_text = ''[{"id":"1762041600000","description":"Tea","amount":2,"type":"expense","category":"Food","date":"2026-11-02T00:00:00.000Z"}]''\<close>

definition truncated_text :: string where
  \<open>truncated_text = ''[{"id":"1762041600000","description":"Tea","amou''\<close>

text \<open>The two entries of \<open>two_adds\<close>, displayed with the filter set to income.\<close>

definition income_view :: "number app_state" where
  "income_view = run (two_adds @ [ClickFilter FilterIncome]) (mount None)"

section \<open>Basic facts about the operations\<close>

lemma setTransactions_cells:
  "transactions (setTransactions f s) = f (transactions s)"
  "stored (setTransactions f s) = f (transactions s) # stored s"
  "showModal (setTransactions f s) = showModal s"
  "filter_cell (setTransactions f s) = filter_cell s"
  "formData (setTransactions f s) = formData s"
  by (simp_all add: setTransactions_def Let_def)



lemma with_form_cells:
  "formData (with_form f) = f" "transactions (with_form f) = []" "stored (with_form f) = [[]]"
  by (simp_all add: with_form_def mount_def initial_state_def)

lemma subseq_of_matching:
  assumes "subseq zs xs" and "\<forall>z\<in>set zs. P z"
  shows "subseq zs (filter P xs)"
proof -
  from assms(1) have "subseq (filter P zs) (filter P xs)"
    by (rule subseq_filter)
  moreover from assms(2) have "filter P zs = zs"
    by (simp add: filter_id_conv)
  ultimately show ?thesis by simp
qed

lemma matches_by_name:
  "(if filter_name f = ''all'' then True else type_name ty = filter_name f)
     = criterion_matches f ty"
  by (cases f; cases ty) simp_all

lemma filteredTransactions_filter:
  "filteredTransactions s
     = filter (\<lambda>t. criterion_matches (filter_cell s) (tx_type t)) (transactions s)"
  by (simp add: filteredTransactions_def matches_by_name)

lemma transactions_delete:
  "transactions (snd (deleteTransaction i s)) = filter (\<lambda>t. tx_id t \<noteq> i) (transactions s)"
  by (simp add: deleteTransaction_def setTransactions_cells)

lemma length_split_by_id:
  "length (filter (\<lambda>t. tx_id t \<noteq> i) ts) + length (filter (\<lambda>t. tx_id t = i) ts) = length ts"
  by (induction ts) simp_all

lemma one_entry_when_distinct:
  "distinct (map tx_id ts) \<Longrightarrow> i \<in> set (map tx_id ts)
     \<Longrightarrow> length (filter (\<lambda>t. tx_id t = i) ts) = 1"
proof (induction ts)
  case Nil
  then show ?case by simp
next
  case (Cons t ts)
  show ?case
  proof (cases "tx_id t = i")
    case True
    with Cons.prems have "i \<notin> set (map tx_id ts)" by simp
    then have "filter (\<lambda>t. tx_id t = i) ts = []"
      by (auto simp: filter_empty_conv)
    with True show ?thesis by simp
  next
    case False
    with Cons show ?thesis by simp
  qed
qed

lemma type_is_income: "(type_name ty = ''income'') = (ty = Income)"
  by (cases ty) simp_all

lemma type_is_expense: "(type_name ty = ''expense'') = (ty = Expense)"
  by (cases ty) simp_all

lemma foldl_amounts:
  fixes ts :: "('n::{zero,plus}) transaction list"
  shows "foldl (\<lambda>sum t. sum + tx_amount t) a ts = foldl (+) a (map tx_amount ts)"
  by (induction ts arbitrary: a) simp_all

lemma foldl_plus_monoid:
  fixes xs :: "('a::monoid_add) list"
  shows "foldl (+) a xs = a + sum_list xs"
  by (induction xs arbitrary: a) (simp_all add: add.assoc)

lemma total_of_sum_list:
  fixes ts :: "('a::monoid_add) transaction list"
  shows "total_of ty ts = (\<Sum>t\<leftarrow>filter (\<lambda>t. tx_type t = ty) ts. tx_amount t)"
  by (simp add: total_of_def foldl_plus_monoid)

lemma parseFloat_empty: "parseFloat [] = NaN"
  by (simp add: parseFloat_def)

lemma positive_amount_nonempty: "positive_finite (parseFloat a) \<Longrightarrow> a \<noteq> []"
  by (auto simp: parseFloat_empty)

lemma handleSubmit_declines:
  "trim (f_description (formData s)) = [] \<or> f_amount (formData s) = []
     \<Longrightarrow> handleSubmit now stamp s = (Undefined, s)"
  by (simp add: handleSubmit_def)

lemma handleSubmit_adds:
  assumes "trim (f_description (formData s)) \<noteq> []" and "f_amount (formData s) \<noteq> []"
  shows "transactions (snd (handleSubmit now stamp s))
           = \<lparr>tx_id = toString now,
              tx_description = trim (f_description (formData s)),
              tx_amount = parseFloat (f_amount (formData s)),
              tx_type = f_type (formData s),
              tx_category = f_category (formData s),
              tx_date = stamp\<rparr> # transactions s"
    and "stored (snd (handleSubmit now stamp s))
           = transactions (snd (handleSubmit now stamp s)) # stored s"
    and "formData (snd (handleSubmit now stamp s)) = initial_form"
    and "showModal (snd (handleSubmit now stamp s)) = False"
    and "filter_cell (snd (handleSubmit now stamp s)) = filter_cell s"
  using assms by (simp_all add: handleSubmit_def Let_def setTransactions_cells initial_form_def)




section \<open>The example inputs, evaluated\<close>

lemma toString_example:
  "toString 1762041600000 = ''1762041600000''" "toString 1762041600007 = ''1762041600007''"
  by (simp_all add: toString_def nat_digits.simps digit_char_def)

lemmas eval_defs =
  step_def category_effect_def handleSubmit_def deleteTransaction_def setTransactions_def
  filteredTransactions_def mount_def initial_state_def initial_form_def Let_def
  trim_def is_space_def parseFloat_def is_digit_def digits_val_def digit_val_def scale10_def
  exponent_part_def toString_example

lemma trim_examples:
  "trim ''Coffee'' = ''Coffee''" "trim '' Coffee '' = ''Coffee''" "trim ''   '' = []"
  "trim ''Pay'' = ''Pay''" "trim ''Tea'' = ''Tea''"
  by (simp_all add: trim_def is_space_def)

lemma parseFloat_examples:
  "parseFloat ''0'' = Finite 0" "parseFloat ''4.50'' = Finite (9 / 2)"
  "parseFloat ''2'' = Finite 2" "parseFloat ''1000'' = Finite 1000"
  by (simp_all add: eval_defs)

lemma example_ids:
  "tx_id pay = ''1762041600007''" "tx_id tea = ''1762041600000''" "tx_id bus = ''1762041600000''"
  "tx_type pay = Income" "tx_type tea = Expense"
  by (simp_all add: pay_def tea_def bus_def)

lemma two_adds_store: "transactions (run two_adds (mount None)) = [pay, tea]"
  by (simp add: two_adds_def pay_def tea_def eval_defs)

lemma same_ms_store: "transactions (run same_ms_events (mount None)) = [tea, bus]"
  by (simp add: same_ms_events_def refilled_events_def tea_def bus_def eval_defs)

lemma refilled_store: "transactions (run refilled_events (mount None)) = [bus]"
  by (simp add: refilled_events_def bus_def eval_defs)

lemma refilled_form:
  "formData (run refilled_events (mount None))
     = \<lparr>f_description = ''Tea'', f_amount = ''2'', f_type = Expense, f_category = ''Food''\<rparr>"
  by (simp add: refilled_events_def eval_defs)

lemma income_view_cells:
  "transactions income_view = [pay, tea]" "filter_cell income_view = FilterIncome"
  by (simp_all add: income_view_def two_adds_def pay_def tea_def eval_defs)

text \<open>
  The form with the amount \<^verbatim>\<open>"0"\<close> is what the user interface holds after the modal was
  opened and the two inputs were typed in.
\<close>

lemma coffee_zero_reachable:
  "run [ClickAdd, ChangeDescription ''Coffee'', ChangeAmount ''0''] (mount None)
     = with_form form_coffee_zero"
  by (simp add: with_form_def form_coffee_zero_def eval_defs)

text \<open>The statistics of the store of \<open>two_adds\<close>: an income of 1000 and an expense of 2.\<close>

lemma calculateStats_example:
  "calculateStats (run two_adds (mount None))
     = \<lparr>income = Finite 1000, expenses = Finite 2, balance = Finite 998\<rparr>"
  by (simp add: calculateStats_def two_adds_store pay_def tea_def zero_number_def
      plus_number_def minus_number_def)

section \<open>Loading\<close>

lemmas json_defs =
  JSON_parse_def lex.simps next_token_def lex_string.simps unescape_def hex_val_def
  lex_number_def minus_part_def int_part_def frac_part_def exponent_part_def json_space_def
  is_digit_def digits_val_def digit_val_def scale10_def units_def Let_def

lemma JSON_parse_examples:
  "JSON_parse truncated_text = Inl SyntaxError"
  "JSON_parse ''oops'' = Inl SyntaxError"
  "JSON_parse ''null'' = Inr JNull"
  "JSON_parse ''[]'' = Inr (JArray [])"
  by (simp_all add: json_defs truncated_text_def)

lemma JSON_parse_tea: "JSON_parse tea_text = Inr (JArray [transaction_json tea])"
  by (simp add: json_defs tea_text_def transaction_json_def tea_def)

text \<open>
  Claim C1, as amended. When the storage slot is absent or holds the empty string, the
  load effect leaves the store as it was, the empty sequence at startup. Every other
  content goes to \<^verbatim>\<open>JSON.parse\<close> unguarded: when the text is not JSON, the
  \<^verbatim>\<open>SyntaxError\<close> leaves the effect, and when it is JSON, the store becomes the value of
  the text, whatever its shape.
\<close>

theorem load_unguarded:
  "load None (JArray []) = Inr (JArray [])
   \<and> load (Some []) (JArray []) = Inr (JArray [])
   \<and> (text \<noteq> [] \<and> JSON_parse text = Inl e \<longrightarrow> load (Some text) (JArray []) = Inl e)
   \<and> (text \<noteq> [] \<and> JSON_parse text = Inr v \<longrightarrow> load (Some text) (JArray []) = Inr v)"
  by (simp add: load_def)

text \<open>
  The text of a store of one entry is loaded as an array of one object; the same text cut
  off in the middle raises the error.
\<close>

theorem load_unguarded_witness:
  "tea_text \<noteq> []
   \<and> JSON_parse tea_text = Inr (JArray [transaction_json tea])
   \<and> load (Some tea_text) (JArray []) = Inr (JArray [transaction_json tea])
   \<and> truncated_text \<noteq> []
   \<and> JSON_parse truncated_text = Inl SyntaxError
   \<and> load (Some truncated_text) (JArray []) = Inl SyntaxError"
proof -
  have t: "tea_text \<noteq> []" by (simp add: tea_text_def)
  have c: "truncated_text \<noteq> []" by (simp add: truncated_text_def)
  from load_unguarded [of tea_text _ "JArray [transaction_json tea]"]
    load_unguarded [of truncated_text SyntaxError] t c
  show ?thesis
    by (simp add: JSON_parse_tea JSON_parse_examples)
qed

text \<open>
  Claim C1 as the specification states it fails on a slot that holds a text cut off in
  the middle, or any other text that is not JSON: the load effect does not return the empty
  sequence, it raises \<^verbatim>\<open>SyntaxError\<close>. On the text \<^verbatim>\<open>null\<close>, which is JSON and not a
  sequence of transactions, it makes the store \<^verbatim>\<open>null\<close>.
\<close>

theorem load_unguarded_counterexample:
  "load (Some truncated_text) (JArray []) = Inl SyntaxError
   \<and> load (Some ''oops'') (JArray []) = Inl SyntaxError
   \<and> load (Some ''null'') (JArray []) = Inr JNull"
proof -
  have "truncated_text \<noteq> []" by (simp add: truncated_text_def)
  then show ?thesis by (simp add: load_def JSON_parse_examples)
qed

section \<open>Adding a transaction\<close>

text \<open>
  Claim C2, as amended. The specification says that \<^verbatim>\<open>add\<close> does nothing when the
  description is empty after trimming or when the amount does not parse to a positive
  finite number. The guard of line 78 tests something else about the amount: that its
  text is not empty. So \<^verbatim>\<open>handleSubmit\<close> does nothing (the whole state, the store and the
  history of the storage slot included, is unchanged and no transaction is built) when the
  trimmed description is empty or the amount text is empty. In every other case, whatever
  the amount text parses to, it adds: the new store is the transaction built from the form
  and the clock followed by the old store, this list is written to the storage slot, the
  form is reset and the modal is closed; nothing else changes.
\<close>

theorem handleSubmit_noop_iff:
  "(trim (f_description (formData s)) = [] \<or> f_amount (formData s) = []
      \<longrightarrow> handleSubmit now stamp s = (Undefined, s))
   \<and> (trim (f_description (formData s)) \<noteq> [] \<and> f_amount (formData s) \<noteq> []
      \<longrightarrow> transactions (snd (handleSubmit now stamp s))
            = \<lparr>tx_id = toString now,
               tx_description = trim (f_description (formData s)),
               tx_amount = parseFloat (f_amount (formData s)),
               tx_type = f_type (formData s),
               tx_category = f_category (formData s),
               tx_date = stamp\<rparr> # transactions s
        \<and> stored (snd (handleSubmit now stamp s))
            = transactions (snd (handleSubmit now stamp s)) # stored s
        \<and> handleSubmit now stamp s
            = (Undefined,
               s\<lparr>transactions := transactions (snd (handleSubmit now stamp s)),
                 stored := stored (snd (handleSubmit now stamp s)),
                 formData := initial_form,
                 showModal := False\<rparr>)
        \<and> length (transactions (snd (handleSubmit now stamp s)))
            = length (transactions s) + 1
        \<and> length (stored (snd (handleSubmit now stamp s))) = length (stored s) + 1)"
proof -
  have decline: "trim (f_description (formData s)) = [] \<or> f_amount (formData s) = []
      \<longrightarrow> handleSubmit now stamp s = (Undefined, s)"
    using handleSubmit_declines [of s now stamp] by blast
  have add: "trim (f_description (formData s)) \<noteq> [] \<and> f_amount (formData s) \<noteq> []
      \<longrightarrow> transactions (snd (handleSubmit now stamp s))
            = \<lparr>tx_id = toString now,
               tx_description = trim (f_description (formData s)),
               tx_amount = parseFloat (f_amount (formData s)),
               tx_type = f_type (formData s),
               tx_category = f_category (formData s),
               tx_date = stamp\<rparr> # transactions s
        \<and> stored (snd (handleSubmit now stamp s))
            = transactions (snd (handleSubmit now stamp s)) # stored s"
    by (simp add: handleSubmit_adds)
  have whole: "trim (f_description (formData s)) \<noteq> [] \<and> f_amount (formData s) \<noteq> []
      \<longrightarrow> handleSubmit now stamp s
            = (Undefined,
               s\<lparr>transactions := transactions (snd (handleSubmit now stamp s)),
                 stored := stored (snd (handleSubmit now stamp s)),
                 formData := initial_form,
                 showModal := False\<rparr>)"
    by (simp add: handleSubmit_def Let_def setTransactions_def initial_form_def)
  have len: "trim (f_description (formData s)) \<noteq> [] \<and> f_amount (formData s) \<noteq> []
      \<longrightarrow> length (transactions (snd (handleSubmit now stamp s)))
            = length (transactions s) + 1
        \<and> length (stored (snd (handleSubmit now stamp s))) = length (stored s) + 1"
    by (simp add: handleSubmit_adds)
  from decline add whole len show ?thesis by blast
qed

text \<open>
  At a description of three blanks nothing happens; at \<^verbatim>\<open>" Coffee "\<close> with amount
  \<^verbatim>\<open>"4.50"\<close> the store becomes the one entry built from the form, and that list is
  written to the storage slot.
\<close>

theorem handleSubmit_noop_iff_witness:
  "trim (f_description (formData (with_form form_blank))) = []
   \<and> handleSubmit 1762041600000 ''2026-11-02T00:00:00.000Z'' (with_form form_blank)
       = (Undefined, with_form form_blank)
   \<and> trim (f_description (formData (with_form form_coffee))) \<noteq> []
   \<and> f_amount (formData (with_form form_coffee)) \<noteq> []
   \<and> transactions (snd (handleSubmit 1762041600000 ''2026-11-02T00:00:00.000Z''
        (with_form form_coffee)))
       = [\<lparr>tx_id = ''1762041600000'', tx_description = ''Coffee'', tx_amount = Finite (9 / 2),
           tx_type = Expense, tx_category = ''Food'', tx_date = ''2026-11-02T00:00:00.000Z''\<rparr>]
   \<and> stored (snd (handleSubmit 1762041600000 ''2026-11-02T00:00:00.000Z''
        (with_form form_coffee)))
       = [[\<lparr>tx_id = ''1762041600000'', tx_description = ''Coffee'', tx_amount = Finite (9 / 2),
           tx_type = Expense, tx_category = ''Food'', tx_date = ''2026-11-02T00:00:00.000Z''\<rparr>],
          []]"
proof -
  have b: "trim (f_description (formData (with_form form_blank))) = []"
    by (simp add: with_form_cells form_blank_def trim_examples)
  have d: "trim (f_description (formData (with_form form_coffee))) \<noteq> []"
    by (simp add: with_form_cells form_coffee_def trim_examples)
  have a: "f_amount (formData (with_form form_coffee)) \<noteq> []"
    by (simp add: with_form_cells form_coffee_def)
  from handleSubmit_noop_iff [of "with_form form_blank" 1762041600000
      "''2026-11-02T00:00:00.000Z''"] b
  have blank: "handleSubmit 1762041600000 ''2026-11-02T00:00:00.000Z'' (with_form form_blank)
       = (Undefined, with_form form_blank)"
    by blast
  from handleSubmit_noop_iff [of "with_form form_coffee" 1762041600000
      "''2026-11-02T00:00:00.000Z''"] d a
  have coffee: "transactions (snd (handleSubmit 1762041600000 ''2026-11-02T00:00:00.000Z''
        (with_form form_coffee)))
       = \<lparr>tx_id = toString 1762041600000,
          tx_description = trim (f_description (formData (with_form form_coffee))),
          tx_amount = parseFloat (f_amount (formData (with_form form_coffee))),
          tx_type = f_type (formData (with_form form_coffee)),
          tx_category = f_category (formData (with_form form_coffee)),
          tx_date = ''2026-11-02T00:00:00.000Z''\<rparr> # transactions (with_form form_coffee)"
    and slot: "stored (snd (handleSubmit 1762041600000 ''2026-11-02T00:00:00.000Z''
        (with_form form_coffee)))
       = transactions (snd (handleSubmit 1762041600000 ''2026-11-02T00:00:00.000Z''
        (with_form form_coffee))) # stored (with_form form_coffee)"
    by blast+
  have new: "transactions (snd (handleSubmit 1762041600000 ''2026-11-02T00:00:00.000Z''
        (with_form form_coffee)))
       = [\<lparr>tx_id = ''1762041600000'', tx_description = ''Coffee'', tx_amount = Finite (9 / 2),
           tx_type = Expense, tx_category = ''Food'', tx_date = ''2026-11-02T00:00:00.000Z''\<rparr>]"
    unfolding coffee
    by (simp add: with_form_cells form_coffee_def trim_examples parseFloat_examples
        toString_example)
  from b blank d a new slot show ?thesis
    by (simp add: with_form_cells)
qed

text \<open>
  Claim C2 as the specification states it fails at the description \<^verbatim>\<open>"Coffee"\<close> with the
  amount \<^verbatim>\<open>"0"\<close>: the amount parses to zero, which is not positive, and yet the transaction
  is put at the head of the empty store and written to the storage slot.
\<close>

theorem handleSubmit_noop_iff_counterexample:
  "trim (f_description (formData (with_form form_coffee_zero))) \<noteq> []
   \<and> \<not> positive_finite (parseFloat (f_amount (formData (with_form form_coffee_zero))))
   \<and> transactions (with_form form_coffee_zero) = []
   \<and> transactions (snd (handleSubmit 1762041600000 ''2026-11-02T00:00:00.000Z''
        (with_form form_coffee_zero)))
       = [\<lparr>tx_id = ''1762041600000'', tx_description = ''Coffee'', tx_amount = Finite 0,
           tx_type = Expense, tx_category = ''Food'', tx_date = ''2026-11-02T00:00:00.000Z''\<rparr>]
   \<and> stored (with_form form_coffee_zero) = [[]]
   \<and> stored (snd (handleSubmit 1762041600000 ''2026-11-02T00:00:00.000Z''
        (with_form form_coffee_zero)))
       = [[\<lparr>tx_id = ''1762041600000'', tx_description = ''Coffee'', tx_amount = Finite 0,
           tx_type = Expense, tx_category = ''Food'', tx_date = ''2026-11-02T00:00:00.000Z''\<rparr>],
          []]"
  by (simp add: handleSubmit_adds with_form_cells form_coffee_zero_def trim_examples
      parseFloat_examples toString_example)

text \<open>
  Claim C8, as amended. For a description that is not empty after trimming and an amount
  text that parses to a positive finite number, \<^verbatim>\<open>handleSubmit\<close> makes the store one entry
  longer: the new transaction is the head and the previous entries follow it unchanged. The
  new transaction holds the trimmed description, the parsed amount, the type and the
  category of the form, the time stamp of the moment, and as its id the decimal digits of
  the clock reading. Nothing makes that id differ from the ids already in the store. The
  effect of lines 49-51 then writes the new list to the storage slot.
\<close>

theorem handleSubmit_prepends:
  assumes "trim (f_description (formData s)) \<noteq> []"
    and "positive_finite (parseFloat (f_amount (formData s)))"
  shows "transactions (snd (handleSubmit now stamp s))
           = \<lparr>tx_id = toString now,
              tx_description = trim (f_description (formData s)),
              tx_amount = parseFloat (f_amount (formData s)),
              tx_type = f_type (formData s),
              tx_category = f_category (formData s),
              tx_date = stamp\<rparr> # transactions s
       \<and> length (transactions (snd (handleSubmit now stamp s)))
           = length (transactions s) + 1
       \<and> stored (snd (handleSubmit now stamp s))
           = transactions (snd (handleSubmit now stamp s)) # stored s"
proof -
  from assms(2) have "f_amount (formData s) \<noteq> []"
    by (rule positive_amount_nonempty)
  with assms(1) show ?thesis
    by (simp add: handleSubmit_adds)
qed

theorem handleSubmit_prepends_witness:
  "trim (f_description (formData (with_form form_coffee))) \<noteq> []
   \<and> positive_finite (parseFloat (f_amount (formData (with_form form_coffee))))
   \<and> transactions (snd (handleSubmit 1762041600000 ''2026-11-02T00:00:00.000Z''
        (with_form form_coffee)))
       = [\<lparr>tx_id = ''1762041600000'', tx_description = ''Coffee'', tx_amount = Finite (9 / 2),
           tx_type = Expense, tx_category = ''Food'', tx_date = ''2026-11-02T00:00:00.000Z''\<rparr>]"
proof -
  have d: "trim (f_description (formData (with_form form_coffee))) \<noteq> []"
    by (simp add: with_form_cells form_coffee_def trim_examples)
  have a: "positive_finite (parseFloat (f_amount (formData (with_form form_coffee))))"
    by (simp add: with_form_cells form_coffee_def parseFloat_examples)
  from handleSubmit_prepends [OF d a, of 1762041600000 "''2026-11-02T00:00:00.000Z''"] d a
  show ?thesis
    by (simp add: with_form_cells form_coffee_def trim_examples parseFloat_examples toString_example)
qed

text \<open>
  Claim C8 as the specification states it promises a fresh id. After one entry was added
  at the clock reading 1762041600000 and the form was filled in again, a valid submission
  at the same clock reading puts at the head a transaction whose id is already an id of
  the store.
\<close>

theorem handleSubmit_prepends_counterexample:
  "trim (f_description (formData (run refilled_events (mount None)))) \<noteq> []
   \<and> positive_finite (parseFloat (f_amount (formData (run refilled_events (mount None)))))
   \<and> f_category (formData (run refilled_events (mount None)))
       \<in> set (categories (f_type (formData (run refilled_events (mount None)))))
   \<and> transactions (run refilled_events (mount None)) = [bus]
   \<and> transactions (snd (handleSubmit 1762041600000 ''2026-11-02T00:00:00.000Z''
        (run refilled_events (mount None)))) = [tea, bus]
   \<and> tx_id tea \<in> set (ids (run refilled_events (mount None)))"
  by (simp add: handleSubmit_adds refilled_form refilled_store trim_examples parseFloat_examples
      toString_example ids_def tea_def bus_def)

section \<open>Deleting a transaction\<close>

text \<open>
  Claim C4, as amended. \<^verbatim>\<open>deleteTransaction\<close> returns no value: the call evaluates to
  \<^verbatim>\<open>undefined\<close> whether or not an entry had the id. That a removal occurred shows in the
  store only: the list is shorter afterwards exactly when some entry had the id.
\<close>

theorem deleteTransaction_returns_nothing:
  fixes s :: "'n app_state"
  shows "fst (deleteTransaction i s) = Undefined
       \<and> (length (transactions (snd (deleteTransaction i s))) < length (transactions s)
            \<longleftrightarrow> i \<in> set (map tx_id (transactions s)))"
proof -
  have len: "length (transactions (snd (deleteTransaction i s)))
               + length (filter (\<lambda>t. tx_id t = i) (transactions s))
             = length (transactions s)"
    unfolding transactions_delete by (rule length_split_by_id)
  have "(filter (\<lambda>t. tx_id t = i) (transactions s) \<noteq> []) = (i \<in> set (map tx_id (transactions s)))"
    by (auto simp: filter_empty_conv)
  then have "(0 < length (filter (\<lambda>t. tx_id t = i) (transactions s)))
               = (i \<in> set (map tx_id (transactions s)))"
    by simp
  with len have "(length (transactions (snd (deleteTransaction i s))) < length (transactions s))
               = (i \<in> set (map tx_id (transactions s)))"
    by linarith
  then show ?thesis by (simp add: deleteTransaction_def)
qed

theorem deleteTransaction_returns_nothing_witness:
  "fst (deleteTransaction ''1762041600007'' (run two_adds (mount None))) = Undefined
   \<and> length (transactions (snd (deleteTransaction ''1762041600007'' (run two_adds (mount None)))))
       < length (transactions (run two_adds (mount None)))
   \<and> ''1762041600007'' \<in> set (map tx_id (transactions (run two_adds (mount None))))"
  using deleteTransaction_returns_nothing [of "''1762041600007''" "run two_adds (mount None)"]
  by (simp add: two_adds_store example_ids)

text \<open>
  Claim C4 as the specification states it fails in the store of \<open>two_adds\<close>: deleting the
  id of an entry of the store does not return \<^verbatim>\<open>true\<close>, and deleting an id that no entry
  has does not return \<^verbatim>\<open>false\<close>.
\<close>

theorem deleteTransaction_returns_nothing_counterexample:
  "''1762041600007'' \<in> set (map tx_id (transactions (run two_adds (mount None))))
   \<and> fst (deleteTransaction ''1762041600007'' (run two_adds (mount None))) \<noteq> Boolean True
   \<and> ''nonexistent-id'' \<notin> set (map tx_id (transactions (run two_adds (mount None))))
   \<and> fst (deleteTransaction ''nonexistent-id'' (run two_adds (mount None))) \<noteq> Boolean False"
  by (simp add: deleteTransaction_def two_adds_store example_ids)

text \<open>
  Claim C6, as amended. After \<^verbatim>\<open>deleteTransaction(i)\<close> no entry of the store has the id
  \<open>i\<close>, and the list is shorter by the number of entries that had it. That number is
  exactly one when \<open>i\<close> is the id of an entry and the ids of the store are pairwise
  distinct; when no entry has the id, the list is unchanged.
\<close>

theorem deleteTransaction_length:
  fixes s :: "'n app_state"
  shows "(\<forall>t\<in>set (transactions (snd (deleteTransaction i s))). tx_id t \<noteq> i)
       \<and> length (transactions (snd (deleteTransaction i s)))
           + length (filter (\<lambda>t. tx_id t = i) (transactions s))
         = length (transactions s)
       \<and> (distinct (map tx_id (transactions s)) \<and> i \<in> set (map tx_id (transactions s))
            \<longrightarrow> length (transactions (snd (deleteTransaction i s))) + 1
                  = length (transactions s))
       \<and> (i \<notin> set (map tx_id (transactions s))
            \<longrightarrow> transactions (snd (deleteTransaction i s)) = transactions s)"
proof -
  let ?after = "transactions (snd (deleteTransaction i s))"
  have eq: "?after = filter (\<lambda>t. tx_id t \<noteq> i) (transactions s)"
    by (rule transactions_delete)
  have gone: "\<forall>t\<in>set ?after. tx_id t \<noteq> i"
    unfolding eq by simp
  have len: "length ?after + length (filter (\<lambda>t. tx_id t = i) (transactions s))
               = length (transactions s)"
    unfolding eq by (rule length_split_by_id)
  have one: "distinct (map tx_id (transactions s)) \<and> i \<in> set (map tx_id (transactions s))
               \<longrightarrow> length ?after + 1 = length (transactions s)"
    using len one_entry_when_distinct [of "transactions s" i] by auto
  have absent: "i \<notin> set (map tx_id (transactions s)) \<longrightarrow> ?after = transactions s"
    unfolding eq by (auto simp: filter_id_conv)
  from gone len one absent show ?thesis by blast
qed

text \<open>
  In the store of \<open>two_adds\<close>, whose ids are distinct, deleting the id of the first entry
  makes the list one shorter and deleting an id that is absent changes nothing; in the
  store of \<open>same_ms_events\<close> deleting the shared id makes the list two shorter.
\<close>

theorem deleteTransaction_length_witness:
  "distinct (map tx_id (transactions (run two_adds (mount None))))
   \<and> ''1762041600007'' \<in> set (map tx_id (transactions (run two_adds (mount None))))
   \<and> length (transactions (snd (deleteTransaction ''1762041600007'' (run two_adds (mount None))))) + 1
       = length (transactions (run two_adds (mount None)))
   \<and> ''nonexistent-id'' \<notin> set (map tx_id (transactions (run two_adds (mount None))))
   \<and> transactions (snd (deleteTransaction ''nonexistent-id'' (run two_adds (mount None))))
       = transactions (run two_adds (mount None))
   \<and> length (transactions (snd (deleteTransaction ''1762041600000'' (run same_ms_events (mount None))))) + 2
       = length (transactions (run same_ms_events (mount None)))"
  using deleteTransaction_length [of "''1762041600007''" "run two_adds (mount None)"]
    deleteTransaction_length [of "''nonexistent-id''" "run two_adds (mount None)"]
    deleteTransaction_length [of "''1762041600000''" "run same_ms_events (mount None)"]
  by (simp add: two_adds_store same_ms_store example_ids)

text \<open>
  Claim C6 as the specification states it fails in the store of \<open>same_ms_events\<close>, which
  the user interface reaches from the empty store: its two entries have the same id, and
  deleting the id of one of them takes the length from 2 to 0, not to 1.
\<close>

theorem deleteTransaction_length_counterexample:
  "tea \<in> set (transactions (run same_ms_events (mount None)))
   \<and> length (transactions (run same_ms_events (mount None))) = 2
   \<and> length (transactions (snd (deleteTransaction (tx_id tea) (run same_ms_events (mount None))))) = 0"
  by (simp add: transactions_delete same_ms_store example_ids)

text \<open>
  Claim C10. \<^verbatim>\<open>deleteTransaction(i)\<close> leaves in the store exactly the entries whose id is not
  \<open>i\<close>: none of the remaining entries has the id \<open>i\<close> (all entries that share it are
  removed), the remaining list is a subsequence of the old list (so the entries are the old
  records, unchanged, in their old order), and every subsequence of the old list that
  avoids the id \<open>i\<close> is still a subsequence of the new list (so nothing else is removed).
  The other cells of the component are unchanged.
\<close>

theorem deleteTransaction_frame:
  fixes s :: "'n app_state"
  shows "transactions (snd (deleteTransaction i s))
           = filter (\<lambda>t. tx_id t \<noteq> i) (transactions s)
       \<and> (\<forall>t\<in>set (transactions (snd (deleteTransaction i s))). tx_id t \<noteq> i)
       \<and> subseq (transactions (snd (deleteTransaction i s))) (transactions s)
       \<and> (\<forall>zs. subseq zs (transactions s) \<and> (\<forall>t\<in>set zs. tx_id t \<noteq> i)
               \<longrightarrow> subseq zs (transactions (snd (deleteTransaction i s))))
       \<and> showModal (snd (deleteTransaction i s)) = showModal s
       \<and> filter_cell (snd (deleteTransaction i s)) = filter_cell s
       \<and> formData (snd (deleteTransaction i s)) = formData s"
proof -
  let ?after = "transactions (snd (deleteTransaction i s))"
  have eq: "?after = filter (\<lambda>t. tx_id t \<noteq> i) (transactions s)"
    by (rule transactions_delete)
  have gone: "\<forall>t\<in>set ?after. tx_id t \<noteq> i"
    unfolding eq by simp
  have sub: "subseq ?after (transactions s)"
    unfolding eq by simp
  have kept: "\<forall>zs. subseq zs (transactions s) \<and> (\<forall>t\<in>set zs. tx_id t \<noteq> i)
                \<longrightarrow> subseq zs ?after"
    unfolding eq by (blast intro: subseq_of_matching)
  have cells: "showModal (snd (deleteTransaction i s)) = showModal s
       \<and> filter_cell (snd (deleteTransaction i s)) = filter_cell s
       \<and> formData (snd (deleteTransaction i s)) = formData s"
    by (simp add: deleteTransaction_def setTransactions_cells)
  from eq gone sub kept cells show ?thesis by blast
qed

theorem deleteTransaction_frame_witness:
  "transactions (snd (deleteTransaction ''1762041600007'' (run two_adds (mount None)))) = [tea]
   \<and> subseq [tea] (transactions (run two_adds (mount None)))
   \<and> tx_id tea \<noteq> ''1762041600007''
   \<and> subseq [tea] (transactions (snd (deleteTransaction ''1762041600007'' (run two_adds (mount None)))))
   \<and> transactions (snd (deleteTransaction ''1762041600000'' (run same_ms_events (mount None)))) = []"
  using deleteTransaction_frame [of "''1762041600007''" "run two_adds (mount None)"]
    deleteTransaction_frame [of "''1762041600000''" "run same_ms_events (mount None)"]
  by (simp add: two_adds_store same_ms_store example_ids)

section \<open>Derived views\<close>

text \<open>
  Claim C9. \<^verbatim>\<open>filteredTransactions\<close> is the list of the entries of the store whose type
  matches the criterion of the filter cell: it is a subsequence of the store, all its
  entries match, and every subsequence of the store whose entries all match is a
  subsequence of it. With the criterion \<^verbatim>\<open>all\<close> it is the store itself.
\<close>

theorem filteredTransactions_subsequence:
  fixes s :: "'n app_state"
  shows "filteredTransactions s
           = filter (\<lambda>t. criterion_matches (filter_cell s) (tx_type t)) (transactions s)
       \<and> subseq (filteredTransactions s) (transactions s)
       \<and> (\<forall>t\<in>set (filteredTransactions s). criterion_matches (filter_cell s) (tx_type t))
       \<and> (\<forall>zs. subseq zs (transactions s)
                 \<and> (\<forall>t\<in>set zs. criterion_matches (filter_cell s) (tx_type t))
               \<longrightarrow> subseq zs (filteredTransactions s))
       \<and> (filter_cell s = FilterAll \<longrightarrow> filteredTransactions s = transactions s)"
proof -
  let ?P = "\<lambda>t::'n transaction. criterion_matches (filter_cell s) (tx_type t)"
  have eq: "filteredTransactions s = filter ?P (transactions s)"
    by (rule filteredTransactions_filter)
  have sub: "subseq (filteredTransactions s) (transactions s)"
    unfolding eq by simp
  have only: "\<forall>t\<in>set (filteredTransactions s). ?P t"
    unfolding eq by simp
  have most: "\<forall>zs. subseq zs (transactions s) \<and> (\<forall>t\<in>set zs. ?P t)
                \<longrightarrow> subseq zs (filteredTransactions s)"
    unfolding eq by (blast intro: subseq_of_matching)
  have all: "filter_cell s = FilterAll \<longrightarrow> filteredTransactions s = transactions s"
    unfolding eq by simp
  from eq sub only most all show ?thesis by blast
qed

theorem filteredTransactions_subsequence_witness:
  "filteredTransactions income_view = [pay]
   \<and> subseq [pay] (transactions income_view)
   \<and> criterion_matches (filter_cell income_view) (tx_type pay)
   \<and> subseq [pay] (filteredTransactions income_view)"
  using filteredTransactions_subsequence [of income_view]
  by (simp add: income_view_cells example_ids)

text \<open>
  Claim C7. \<^verbatim>\<open>calculateStats\<close> returns as income the sum of the amounts of the income
  entries of the store, as expenses the sum of the amounts of the expense entries, and as
  balance the income minus the expenses. It reads the whole store and not the filter cell:
  changing the filter does not change the result. The first four statements hold for every
  arithmetic, the sum being accumulated in store order from \<open>0\<close> as \<^verbatim>\<open>reduce\<close> does; the
  last two say that this is the usual sum of the list wherever addition is associative with
  the neutral element \<open>0\<close>.
\<close>

theorem calculateStats_totals:
  fixes s :: "('n::{zero,plus,minus}) app_state"
    and r :: "('a::{monoid_add,minus}) app_state"
  shows "income (calculateStats s) = total_of Income (transactions s)
       \<and> expenses (calculateStats s) = total_of Expense (transactions s)
       \<and> balance (calculateStats s) = income (calculateStats s) - expenses (calculateStats s)
       \<and> calculateStats (s\<lparr>filter_cell := f\<rparr>) = calculateStats s
       \<and> income (calculateStats r)
           = (\<Sum>t\<leftarrow>filter (\<lambda>t. tx_type t = Income) (transactions r). tx_amount t)
       \<and> expenses (calculateStats r)
           = (\<Sum>t\<leftarrow>filter (\<lambda>t. tx_type t = Expense) (transactions r). tx_amount t)"
proof -
  have inc: "income (calculateStats s) = total_of Income (transactions s)"
    by (simp add: calculateStats_def Let_def total_of_def type_is_income foldl_amounts)
  have exp: "expenses (calculateStats s) = total_of Expense (transactions s)"
    by (simp add: calculateStats_def Let_def total_of_def type_is_expense foldl_amounts)
  have bal: "balance (calculateStats s) = income (calculateStats s) - expenses (calculateStats s)"
    by (simp add: calculateStats_def Let_def)
  have indep: "calculateStats (s\<lparr>filter_cell := f\<rparr>) = calculateStats s"
    by (simp add: calculateStats_def)
  have inc': "income (calculateStats r)
           = (\<Sum>t\<leftarrow>filter (\<lambda>t. tx_type t = Income) (transactions r). tx_amount t)"
    by (simp add: calculateStats_def Let_def type_is_income foldl_amounts foldl_plus_monoid)
  have exp': "expenses (calculateStats r)
           = (\<Sum>t\<leftarrow>filter (\<lambda>t. tx_type t = Expense) (transactions r). tx_amount t)"
    by (simp add: calculateStats_def Let_def type_is_expense foldl_amounts foldl_plus_monoid)
  from inc exp bal indep inc' exp' show ?thesis by blast
qed

section \<open>Invariants of the store\<close>













end
